theory Spec2Isabelle
  imports Main
begin

section \<open>Event envelope model (services/websocket.ts, services/event\_handler.ts)\<close>

text \<open>
  The wire types of \<^verbatim>\<open>websocket.ts\<close>. String-literal unions are datatypes, object
  types are records or constructors with the fields in declaration order. Timestamps
  are the ISO strings the source carries; they are only interpreted where the source
  calls \<^verbatim>\<open>new Date(..).getTime()\<close>.
\<close>

datatype level = info | success | warning | error

datatype role = user | ai

datatype variant = primary | secondary

datatype severity = sev_debug | sev_info | sev_success | sev_warning | sev_error | sev_critical

record FileGeneratedMessage =
  doc_type :: string
  filename :: string
  path :: string
  content :: string
  full_content :: string
  auto_focus :: bool
  timestamp :: string

text \<open>\<^verbatim>\<open>ActionButton = {label, action, variant}\<close>\<close>

datatype ActionButton = ActionButton string string variant

text \<open>
  \<^verbatim>\<open>WorkflowEvent\<close> of \<^verbatim>\<open>event_handler.ts\<close>. Optional fields are options; the
  untyped \<^verbatim>\<open>data\<close> payload is never read by the code modelled here and is left out.
\<close>

record WorkflowEvent =
  event_type :: string
  ev_timestamp :: string
  project_id :: string
  stage :: "string option"
  agent :: "string option"
  message :: string
  ev_severity :: "severity option"
  progress_percentage :: "int option"

text \<open>
  The tagged union \<^verbatim>\<open>WebSocketMessage\<close>, one constructor per \<^verbatim>\<open>type\<close> tag:
  \<^item> \<open>LOG level message agent timestamp\<close>
  \<^item> \<open>FILE_GENERATED file\<close>
  \<^item> \<open>CHAT_MESSAGE role content timestamp\<close>
  \<^item> \<open>CHAT_RESPONSE message action buttons timestamp\<close>
  \<^item> \<open>AWAITING_REVIEW stage prompt files timestamp\<close>
  \<^item> \<open>STATUS_UPDATE status timestamp\<close>
  \<^item> \<open>CONNECTION_STATUS connected timestamp\<close>
  \<^item> \<open>workflow_event event\<close>
\<close>

datatype WebSocketMessage =
    LOG level string string string
  | FILE_GENERATED FileGeneratedMessage
  | CHAT_MESSAGE role string string
  | CHAT_RESPONSE string "string option" "ActionButton list option" string
  | AWAITING_REVIEW string string "string list" string
  | STATUS_UPDATE string string
  | CONNECTION_STATUS bool string
  | workflow_event WorkflowEvent


section \<open>Dashboard state (pages/Dashboard.tsx)\<close>

text \<open>\<^verbatim>\<open>interface ProjectStatus\<close>; a missing or null \<^verbatim>\<open>generated_files\<close> is \<open>None\<close>.\<close>

record ProjectStatus =
  ps_status :: string
  current_step :: string
  steps_completed :: "string list"
  generated_files :: "FileGeneratedMessage list option"

text \<open>\<^verbatim>\<open>interface ChatMessage\<close> of the Dashboard.\<close>

record ChatMessage =
  chat_role :: role
  chat_content :: string
  chat_timestamp :: string

text \<open>
  The \<^verbatim>\<open>useState\<close> cells of the component that the reducers below write
  (\<open>dash_status\<close> is the cell \<^verbatim>\<open>status\<close>).
\<close>

record Dashboard =
  dash_status :: "ProjectStatus option"
  files :: "FileGeneratedMessage list"
  chatMessages :: "ChatMessage list"
  selectedFile :: "FileGeneratedMessage option"
  isChatLoading :: bool
  isConnected :: bool
  awaitingReview :: bool
  retryCount :: nat

text \<open>
  What a closure created during one render sees: \<^verbatim>\<open>projectId\<close> from the route and the
  values of \<^verbatim>\<open>files\<close>, \<^verbatim>\<open>selectedFile\<close> and \<^verbatim>\<open>retryCount\<close> of that render. The
  subscribe callback and \<^verbatim>\<open>fetchStatus\<close> read these captured values, not the current
  state; only the functional updaters (\<^verbatim>\<open>setFiles(prev => ..)\<close>) see the current state.
\<close>

record scope =
  scope_projectId :: "string option"
  scope_files :: "FileGeneratedMessage list"
  scope_selectedFile :: "FileGeneratedMessage option"
  scope_retryCount :: nat

text \<open>\<^verbatim>\<open>Array.prototype.findIndex\<close>: the first index satisfying the predicate, else -1.\<close>

fun findIndex :: "('a \<Rightarrow> bool) \<Rightarrow> 'a list \<Rightarrow> int" where
  "findIndex P [] = - 1"
| "findIndex P (x # xs) =
     (if P x then 0 else (let i = findIndex P xs in if i < 0 then - 1 else i + 1))"

text \<open>
  The updater of the FILE\_GENERATED branch (Dashboard.tsx 206-214): the entry is looked
  up by \<^verbatim>\<open>filename\<close>, replaced in place when found, appended otherwise.
\<close>

definition file_generated_updater ::
  "FileGeneratedMessage \<Rightarrow> FileGeneratedMessage list \<Rightarrow> FileGeneratedMessage list" where
  "file_generated_updater msg prev =
     (let existingIndex = findIndex (\<lambda>f. filename f = filename msg) prev
      in if existingIndex \<ge> 0 then prev[nat existingIndex := msg] else prev @ [msg])"

text \<open>
  The updater of \<^verbatim>\<open>fetchStatus\<close> (Dashboard.tsx 112-121): \<^verbatim>\<open>forEach\<close> over the
  snapshot's files, pushing a server file when \<^verbatim>\<open>newFiles.find\<close> by \<^verbatim>\<open>path\<close> finds
  nothing. \<^verbatim>\<open>newFiles\<close> grows during the loop, so a path repeated inside the snapshot
  is pushed once.
\<close>

definition merge_step ::
  "FileGeneratedMessage list \<Rightarrow> FileGeneratedMessage \<Rightarrow> FileGeneratedMessage list" where
  "merge_step newFiles serverFile =
     (if List.find (\<lambda>f. path f = path serverFile) newFiles = None
      then newFiles @ [serverFile] else newFiles)"

definition merge_unique_files ::
  "FileGeneratedMessage list \<Rightarrow> FileGeneratedMessage list \<Rightarrow> FileGeneratedMessage list" where
  "merge_unique_files server prev = foldl merge_step prev server"

text \<open>
  \<^verbatim>\<open>fetchStatus\<close>. The outcome of \<^verbatim>\<open>projectService.getProjectStatus\<close> is an input:
  the resolved snapshot or a rejection. The result is the new state and the delay of the
  timer the catch block sets (its callback increments \<^verbatim>\<open>retryCount\<close> later).
\<close>

datatype poll_outcome = Resolved ProjectStatus | Rejected

definition fetchStatus :: "scope \<Rightarrow> poll_outcome \<Rightarrow> Dashboard \<Rightarrow> Dashboard \<times> nat option" where
  "fetchStatus sc outcome st =
     (if scope_projectId sc = None \<or> scope_projectId sc = Some [] then (st, None)
      else case outcome of
        Resolved data \<Rightarrow>
          (let st1 = st\<lparr>dash_status := Some data, retryCount := 0\<rparr>
           in case generated_files data of
                None \<Rightarrow> (st1, None)
              | Some gf \<Rightarrow>
                  if length gf > 0
                  then (st1\<lparr>files := merge_unique_files gf (files st1)\<rparr>, None)
                  else (st1, None))
      | Rejected \<Rightarrow> (st, Some (min (1000 * 2 ^ scope_retryCount sc) 10000)))"

text \<open>The callback of the timer set in the catch block: \<^verbatim>\<open>setRetryCount(c => c + 1)\<close>.\<close>

definition retry_timer_fired :: "Dashboard \<Rightarrow> Dashboard" where
  "retry_timer_fired st = st\<lparr>retryCount := retryCount st + 1\<rparr>"

text \<open>
  The comparison both chat branches make:
  \<^verbatim>\<open>Math.abs(new Date(a).getTime() - new Date(b).getTime()) < 2000\<close>.
  \<^verbatim>\<open>Date\<close> parsing is the platform's; it is the parameter \<open>getTime\<close>, which gives the
  milliseconds of a timestamp string, or \<open>None\<close> where JavaScript gives NaN (an
  unparsable or missing timestamp). Any comparison with NaN is false.
\<close>

definition timestamps_within_2000 :: "(string \<Rightarrow> int option) \<Rightarrow> string \<Rightarrow> string \<Rightarrow> bool" where
  "timestamps_within_2000 getTime a b =
     (case getTime a of
        None \<Rightarrow> False
      | Some x \<Rightarrow> (case getTime b of None \<Rightarrow> False | Some y \<Rightarrow> \<bar>x - y\<bar> < 2000))"

text \<open>
  The callback passed to \<^verbatim>\<open>webSocketService.subscribe\<close> (Dashboard.tsx 201-264), one
  branch per \<^verbatim>\<open>message.type\<close> in the source's order; a type with no branch leaves the
  state as it is. The AWAITING\_REVIEW branch reads \<^verbatim>\<open>files\<close> and \<^verbatim>\<open>selectedFile\<close>
  of the render that created the callback (the effect's dependency list is
  \<^verbatim>\<open>[projectId]\<close>), hence the \<open>scope\<close>. The body never reads \<^verbatim>\<open>projectId\<close>.
\<close>

definition subscribe_callback ::
  "(string \<Rightarrow> int option) \<Rightarrow> scope \<Rightarrow> WebSocketMessage \<Rightarrow> Dashboard \<Rightarrow> Dashboard" where
  "subscribe_callback getTime sc msg st =
     (case msg of
        FILE_GENERATED m \<Rightarrow>
          (let st1 = st\<lparr>files := file_generated_updater m (files st)\<rparr>
           in if auto_focus m then st1\<lparr>selectedFile := Some m\<rparr> else st1)
      | CONNECTION_STATUS connected ts \<Rightarrow> st\<lparr>isConnected := connected\<rparr>
      | CHAT_MESSAGE r c ts \<Rightarrow>
          (let prev = chatMessages st;
               isDuplicate = list_ex (\<lambda>m. chat_role m = r \<and> chat_content m = c \<and>
                                timestamps_within_2000 getTime (chat_timestamp m) ts) prev
           in if isDuplicate then st
              else st\<lparr>chatMessages :=
                     prev @ [\<lparr>chat_role = r, chat_content = c, chat_timestamp = ts\<rparr>]\<rparr>)
      | CHAT_RESPONSE mtext action buttons ts \<Rightarrow>
          (let st1 = st\<lparr>isChatLoading := False\<rparr>;
               prev = chatMessages st1;
               isDuplicate = list_ex (\<lambda>m. chat_role m = ai \<and> chat_content m = mtext \<and>
                                timestamps_within_2000 getTime (chat_timestamp m) ts) prev
           in if isDuplicate then st1
              else st1\<lparr>chatMessages :=
                     prev @ [\<lparr>chat_role = ai, chat_content = mtext, chat_timestamp = ts\<rparr>]\<rparr>)
      | AWAITING_REVIEW stg prompt fs ts \<Rightarrow>
          (let st1 = st\<lparr>awaitingReview := True\<rparr>
           in if length (scope_files sc) > 0 \<and> scope_selectedFile sc = None
              then st1\<lparr>selectedFile := Some (last (scope_files sc))\<rparr>
              else st1)
      | _ \<Rightarrow> st)"

text \<open>
  The state at mount: the status and the transcript come from the session cache
  (\<^verbatim>\<open>localStorage\<close>), everything else starts empty.
\<close>

definition initial_Dashboard :: "ProjectStatus option \<Rightarrow> ChatMessage list \<Rightarrow> Dashboard" where
  "initial_Dashboard cached_status cached_chat =
     \<lparr>dash_status = cached_status, files = [], chatMessages = cached_chat,
      selectedFile = None, isChatLoading = False, isConnected = False,
      awaitingReview = False, retryCount = 0\<rparr>"

text \<open>The scope a render of state \<open>st\<close> gives to the closures it creates.\<close>

definition render_scope :: "string option \<Rightarrow> Dashboard \<Rightarrow> scope" where
  "render_scope pid st =
     \<lparr>scope_projectId = pid, scope_files = files st,
      scope_selectedFile = selectedFile st, scope_retryCount = retryCount st\<rparr>"

text \<open>
  The effect on \<^verbatim>\<open>[files]\<close> (Dashboard.tsx 274-278): after a render in which the file
  list changed, the last file is selected when none is.
\<close>

definition auto_select_effect :: "Dashboard \<Rightarrow> Dashboard" where
  "auto_select_effect st =
     (if length (files st) > 0 \<and> selectedFile st = None
      then st\<lparr>selectedFile := Some (last (files st))\<rparr> else st)"

text \<open>
  The transcript entry a chat delivery stands for: the object its branch appends when it
  finds no duplicate (a CHAT\_RESPONSE is always tagged \<^verbatim>\<open>'ai'\<close>).
\<close>

fun chat_entry :: "WebSocketMessage \<Rightarrow> ChatMessage option" where
  "chat_entry (CHAT_MESSAGE r c ts) =
     Some \<lparr>chat_role = r, chat_content = c, chat_timestamp = ts\<rparr>"
| "chat_entry (CHAT_RESPONSE mtext action buttons ts) =
     Some \<lparr>chat_role = ai, chat_content = mtext, chat_timestamp = ts\<rparr>"
| "chat_entry m = None"

text \<open>
  For concrete runs: a file record of a given name, path and content, and
  \<^verbatim>\<open>new Date(..).getTime()\<close> on the three timestamps used in them (any other text
  counts as unparsable there).
\<close>

definition mk_file :: "string \<Rightarrow> string \<Rightarrow> string \<Rightarrow> FileGeneratedMessage" where
  "mk_file fname p c =
     \<lparr>doc_type = ''code'', filename = fname, path = p, content = c, full_content = c,
      auto_focus = False, timestamp = ''2025-01-01T00:00:00.000Z''\<rparr>"

definition sample_getTime :: "string \<Rightarrow> int option" where
  "sample_getTime ts =
     (if ts = ''2025-01-01T00:00:00.000Z'' then Some 1735689600000
      else if ts = ''2025-01-01T00:00:01.500Z'' then Some 1735689601500
      else if ts = ''2025-01-01T00:00:03.000Z'' then Some 1735689603000
      else None)"

text \<open>A step of the Dashboard as the two update sources drive it.\<close>

datatype dashboard_input = Push WebSocketMessage | Poll poll_outcome

definition dashboard_step ::
  "(string \<Rightarrow> int option) \<Rightarrow> scope \<Rightarrow> Dashboard \<Rightarrow> dashboard_input \<Rightarrow> Dashboard" where
  "dashboard_step getTime sc st i =
     (case i of
        Push msg \<Rightarrow> subscribe_callback getTime sc msg st
      | Poll outcome \<Rightarrow> fst (fetchStatus sc outcome st))"


section \<open>Per-stage state (components/ProgressTimeline.tsx)\<close>

datatype stage_status = pending | running | completed | failed

text \<open>
  \<^verbatim>\<open>interface StageInfo\<close> (\<open>stage_agent\<close> and \<open>stage_message\<close> are its fields
  \<^verbatim>\<open>agent\<close> and \<^verbatim>\<open>message\<close>).
\<close>

record StageInfo =
  name :: string
  status :: stage_status
  stage_agent :: "string option"
  startTime :: "string option"
  endTime :: "string option"
  stage_message :: "string option"
  events :: "WorkflowEvent list"
  expanded :: bool

type_synonym stages = "string \<rightharpoonup> StageInfo"

definition STAGES :: "string list" where
  "STAGES = [''requirements'', ''architecture'', ''developer'', ''qa'', ''devops'']"

text \<open>The initial value of the \<^verbatim>\<open>stages\<close> cell: every stage of \<open>STAGES\<close> pending.\<close>

definition initial_stages :: stages where
  "initial_stages =
     map_of (map (\<lambda>s. (s, \<lparr>name = s, status = pending, stage_agent = None, startTime = None,
                            endTime = None, stage_message = None, events = [],
                            expanded = False\<rparr>)) STAGES)"

datatype js_error = TypeError | SyntaxError | Thrown string

text \<open>
  The state is a plain object, so \<^verbatim>\<open>updated[key]\<close> for a key that is no own property
  finds what \<^verbatim>\<open>Object.prototype\<close> defines under that name: a function or object,
  truthy, with no \<^verbatim>\<open>events\<close> field.
\<close>

definition Object_prototype_keys :: "string list" where
  "Object_prototype_keys =
     [''constructor'', ''__proto__'', ''hasOwnProperty'', ''isPrototypeOf'',
      ''propertyIsEnumerable'', ''toLocaleString'', ''toString'', ''valueOf'',
      ''__defineGetter__'', ''__defineSetter__'', ''__lookupGetter__'', ''__lookupSetter__'']"

text \<open>
  \<^verbatim>\<open>handleEvent\<close> of the ProgressTimeline with the updater it passes to
  \<^verbatim>\<open>setStages\<close> (part\_010 48-84). \<open>Inl TypeError\<close> is the updater throwing at
  \<^verbatim>\<open>stageInfo.events.push\<close> when the stage name is an inherited property name; the
  component does not survive that. \<^verbatim>\<open>if (event.stage)\<close> is false for a missing and
  for an empty stage.
\<close>

definition ProgressTimeline_handleEvent ::
  "string \<Rightarrow> WorkflowEvent \<Rightarrow> stages \<Rightarrow> js_error + stages" where
  "ProgressTimeline_handleEvent projectId event prev =
     (if project_id event \<noteq> projectId then Inr prev
      else case stage event of
        None \<Rightarrow> Inr prev
      | Some s \<Rightarrow>
          if s = [] then Inr prev
          else (case prev s of
                  None \<Rightarrow> if s \<in> set Object_prototype_keys then Inl TypeError else Inr prev
                | Some stageInfo \<Rightarrow>
                    (let si = stageInfo\<lparr>events := events stageInfo @ [event]\<rparr>;
                         si' =
                           (if event_type event = ''stage_started''
                            then si\<lparr>status := running, startTime := Some (ev_timestamp event),
                                    stage_agent := agent event,
                                    stage_message := Some (message event)\<rparr>
                            else if event_type event = ''stage_completed''
                            then si\<lparr>status := completed, endTime := Some (ev_timestamp event),
                                    stage_message := Some (message event)\<rparr>
                            else if event_type event = ''stage_failed''
                            then si\<lparr>status := failed, endTime := Some (ev_timestamp event),
                                    stage_message := Some (message event)\<rparr>
                            else if event_type event = ''agent_thinking''
                            then si\<lparr>stage_message := Some (message event)\<rparr>
                            else si)
                     in Inr (prev(s \<mapsto> si')))))"

text \<open>
  \<^verbatim>\<open>toggleStageExpansion\<close>, the other writer of the cell. The view calls it with the
  names of \<open>STAGES\<close> only, for rows whose entry is defined, and that is what is
  modelled. For any other name with no entry \<^verbatim>\<open>prev[stageName].expanded\<close> reads a
  field of \<^verbatim>\<open>undefined\<close> and throws; the one exception, a name that
  \<^verbatim>\<open>Object.prototype\<close> defines, for which the source would add an entry holding only
  \<^verbatim>\<open>expanded\<close>, cannot come from the view and is an error here as well.
\<close>

definition toggleStageExpansion :: "string \<Rightarrow> stages \<Rightarrow> js_error + stages" where
  "toggleStageExpansion stageName prev =
     (case prev stageName of
        None \<Rightarrow> Inl TypeError
      | Some si \<Rightarrow> Inr (prev(stageName \<mapsto> si\<lparr>expanded := \<not> expanded si\<rparr>)))"

datatype timeline_action = Event WorkflowEvent | Toggle string

definition timeline_step :: "string \<Rightarrow> timeline_action \<Rightarrow> stages \<Rightarrow> js_error + stages" where
  "timeline_step projectId a st =
     (case a of Event ev \<Rightarrow> ProgressTimeline_handleEvent projectId ev st
              | Toggle n \<Rightarrow> toggleStageExpansion n st)"

text \<open>A run of the component stops at the first throwing update.\<close>

fun timeline_run :: "string \<Rightarrow> timeline_action list \<Rightarrow> stages \<Rightarrow> js_error + stages" where
  "timeline_run projectId [] st = Inr st"
| "timeline_run projectId (a # as) st =
     (case timeline_step projectId a st of
        Inl e \<Rightarrow> Inl e
      | Inr st' \<Rightarrow> timeline_run projectId as st')"


section \<open>Event router and history (services/event\_handler.ts)\<close>

text \<open>
  A listener acts on the state \<open>'s\<close> of whoever registered it and may throw after
  changing it. The listeners of this repository (console logging, the ProgressTimeline)
  never call back into the router.
\<close>

type_synonym 's EventCallback = "WorkflowEvent \<Rightarrow> 's \<Rightarrow> js_error option \<times> 's"

record 's EventHandler =
  listeners :: "string \<rightharpoonup> 's EventCallback list"
  eventHistory :: "WorkflowEvent list"

definition on :: "string \<Rightarrow> 's EventCallback \<Rightarrow> 's EventHandler \<Rightarrow> 's EventHandler" where
  "on eventType callback eh =
     eh\<lparr>listeners := (listeners eh)(eventType \<mapsto>
           (case listeners eh eventType of None \<Rightarrow> [] | Some cbs \<Rightarrow> cbs) @ [callback])\<rparr>"

definition onAny :: "'s EventCallback \<Rightarrow> 's EventHandler \<Rightarrow> 's EventHandler" where
  "onAny callback eh = on ''*'' callback eh"

text \<open>\<^verbatim>\<open>forEach\<close> with the \<^verbatim>\<open>try/catch\<close> around each call: an exception is logged and dropped.\<close>

fun notify_listeners :: "'s EventCallback list \<Rightarrow> WorkflowEvent \<Rightarrow> 's \<Rightarrow> 's" where
  "notify_listeners [] event s = s"
| "notify_listeners (callback # cbs) event s = notify_listeners cbs event (snd (callback event s))"

definition EventHandler_handleEvent ::
  "WorkflowEvent \<Rightarrow> 's EventHandler \<Rightarrow> 's \<Rightarrow> 's EventHandler \<times> 's" where
  "EventHandler_handleEvent event eh s =
     (let eh' = eh\<lparr>eventHistory := eventHistory eh @ [event]\<rparr>;
          specificListeners = (case listeners eh' (event_type event) of None \<Rightarrow> [] | Some l \<Rightarrow> l);
          s1 = notify_listeners specificListeners event s;
          wildcardListeners = (case listeners eh' ''*'' of None \<Rightarrow> [] | Some l \<Rightarrow> l);
          s2 = notify_listeners wildcardListeners event s1
      in (eh', s2))"

text \<open>The router as constructed: no listeners, empty history.\<close>

definition new_EventHandler :: "'s EventHandler" where
  "new_EventHandler = \<lparr>listeners = Map.empty, eventHistory = []\<rparr>"

text \<open>An event of a given type, project and stage, for concrete runs.\<close>

definition mk_event :: "string \<Rightarrow> string \<Rightarrow> string \<Rightarrow> WorkflowEvent" where
  "mk_event ty pid stg =
     \<lparr>event_type = ty, ev_timestamp = ''2025-01-01T00:00:00.000Z'', project_id = pid,
      stage = Some stg, agent = None, message = ty, ev_severity = None,
      progress_percentage = None\<rparr>"

text \<open>Feeding a sequence of events to the router, in order.\<close>

fun handleEvents :: "WorkflowEvent list \<Rightarrow> 's EventHandler \<Rightarrow> 's \<Rightarrow> 's EventHandler \<times> 's" where
  "handleEvents [] eh s = (eh, s)"
| "handleEvents (e # es) eh s =
     (case EventHandler_handleEvent e eh s of (eh', s') \<Rightarrow> handleEvents es eh' s')"

text \<open>
  \<^verbatim>\<open>Array.prototype.slice(start)\<close> for an integer start: a negative start counts from
  the end, and both are clamped to the array.
\<close>

definition slice_from :: "int \<Rightarrow> 'a list \<Rightarrow> 'a list" where
  "slice_from start xs =
     (let len = int (length xs);
          k = (if start < 0 then max (len + start) 0 else min start len)
      in drop (nat k) xs)"

text \<open>
  \<^verbatim>\<open>getHistory(eventType?, limit?)\<close>. Both arguments are tested for truthiness: an
  absent or empty \<^verbatim>\<open>eventType\<close> does not filter, an absent or zero \<^verbatim>\<open>limit\<close> does
  not slice. Limits are integers here.
\<close>

definition getHistory :: "string option \<Rightarrow> int option \<Rightarrow> 's EventHandler \<Rightarrow> WorkflowEvent list" where
  "getHistory eventType limit eh =
     (let filtered =
            (case eventType of
               None \<Rightarrow> eventHistory eh
             | Some t \<Rightarrow> if t = [] then eventHistory eh
                         else filter (\<lambda>e. event_type e = t) (eventHistory eh))
      in case limit of
           None \<Rightarrow> filtered
         | Some l \<Rightarrow> if l = 0 then filtered else slice_from (- l) filtered)"

definition clearHistory :: "'s EventHandler \<Rightarrow> 's EventHandler" where
  "clearHistory eh = eh\<lparr>eventHistory := []\<rparr>"

definition getCurrentStage :: "'s EventHandler \<Rightarrow> string option" where
  "getCurrentStage eh =
     (case rev (filter (\<lambda>e. case stage e of None \<Rightarrow> False | Some s \<Rightarrow> s \<noteq> [])
                       (eventHistory eh)) of
        [] \<Rightarrow> None
      | e # _ \<Rightarrow> stage e)"


section \<open>Transport layer (services/websocket.ts)\<close>

subsection \<open>Connection and reconnect state\<close>

text \<open>
  The fields of \<^verbatim>\<open>WebSocketService\<close> that the connection life cycle reads and writes.
  \<open>ws\<close> holds the project id the open socket's URL was built from (\<open>None\<close> is
  \<^verbatim>\<open>null\<close>). Two logs make the effects visible: \<open>pending_timers\<close>, the delays in
  milliseconds of the \<^verbatim>\<open>setTimeout(() => this._connect(), ..)\<close> calls that have not
  fired yet, and \<open>notified\<close>, the CONNECTION\_STATUS flags published so far.
  Publishing is taken to return: \<^verbatim>\<open>_notifyConnectionStatus\<close> calls the subscribers
  unguarded, so one that throws on a CONNECTION\_STATUS envelope would end \<open>onclose\<close>
  before \<^verbatim>\<open>_reconnect\<close> runs and nothing more would be scheduled; the Dashboard's
  callback, the only subscriber in the repository, does not throw.
  The private methods \<^verbatim>\<open>_connect\<close>, \<^verbatim>\<open>_reconnect\<close> and
  \<^verbatim>\<open>_notifyConnectionStatus\<close> are \<open>priv_connect\<close>, \<open>priv_reconnect\<close> and
  \<open>priv_notifyConnectionStatus\<close>.
\<close>

record WebSocketService =
  ws :: "string option"
  reconnectAttempts :: nat
  projectId :: "string option"
  pending_timers :: "nat list"
  notified :: "bool list"

definition reconnectInterval :: nat where
  "reconnectInterval = 3000"

definition maxReconnectAttempts :: nat where
  "maxReconnectAttempts = 10"

text \<open>The service as constructed.\<close>

definition new_WebSocketService :: WebSocketService where
  "new_WebSocketService =
     \<lparr>ws = None, reconnectAttempts = 0, projectId = None, pending_timers = [], notified = []\<rparr>"

definition priv_connect :: "WebSocketService \<Rightarrow> WebSocketService" where
  "priv_connect s =
     (case projectId s of
        None \<Rightarrow> s
      | Some pid \<Rightarrow> if pid = [] then s else s\<lparr>ws := Some pid\<rparr>)"

definition connect :: "string \<Rightarrow> WebSocketService \<Rightarrow> WebSocketService" where
  "connect pid s = priv_connect (s\<lparr>projectId := Some pid, reconnectAttempts := 0\<rparr>)"

definition priv_notifyConnectionStatus :: "bool \<Rightarrow> WebSocketService \<Rightarrow> WebSocketService" where
  "priv_notifyConnectionStatus connected s = s\<lparr>notified := notified s @ [connected]\<rparr>"

definition priv_reconnect :: "WebSocketService \<Rightarrow> WebSocketService" where
  "priv_reconnect s =
     (if reconnectAttempts s < maxReconnectAttempts
      then s\<lparr>reconnectAttempts := reconnectAttempts s + 1,
              pending_timers := pending_timers s @ [reconnectInterval]\<rparr>
      else s)"

definition onopen :: "WebSocketService \<Rightarrow> WebSocketService" where
  "onopen s = priv_notifyConnectionStatus True (s\<lparr>reconnectAttempts := 0\<rparr>)"

definition onclose :: "WebSocketService \<Rightarrow> WebSocketService" where
  "onclose s = priv_reconnect (priv_notifyConnectionStatus False (s\<lparr>ws := None\<rparr>))"

text \<open>
  \<^verbatim>\<open>onerror\<close> only asks the socket to close; the state changes when the close event
  that follows runs \<open>onclose\<close>.
\<close>

definition onerror :: "WebSocketService \<Rightarrow> WebSocketService" where
  "onerror s = s"

definition disconnect :: "WebSocketService \<Rightarrow> WebSocketService" where
  "disconnect s = s\<lparr>ws := None, projectId := None\<rparr>"

text \<open>The oldest pending reconnect timer fires and runs \<^verbatim>\<open>this._connect()\<close>.\<close>

definition fire_timer :: "WebSocketService \<Rightarrow> WebSocketService" where
  "fire_timer s =
     (case pending_timers s of
        [] \<Rightarrow> s
      | d # ds \<Rightarrow> priv_connect (s\<lparr>pending_timers := ds\<rparr>))"

text \<open>
  A backend that refuses every connection: the open socket fails (error, then close),
  and whenever a reconnect timer is pending it fires and the new socket fails again.
  The result lists the delays of the automatic reconnect attempts made until none is
  scheduled any more; \<open>None\<close> means the fuel ran out before that point.
\<close>

fun failing_reconnects :: "nat \<Rightarrow> WebSocketService \<Rightarrow> nat list option" where
  "failing_reconnects 0 s = None"
| "failing_reconnects (Suc fuel) s =
     (case ws s of
        None \<Rightarrow> Some []
      | Some u \<Rightarrow>
          (let s1 = onclose (onerror s)
           in case pending_timers s1 of
                [] \<Rightarrow> Some []
              | d # ds \<Rightarrow> map_option ((#) d) (failing_reconnects fuel (fire_timer s1))))"

subsection \<open>Inbound frames\<close>

text \<open>
  A JavaScript value as \<^verbatim>\<open>JSON.parse\<close> returns it. An object lists its own
  properties, each key once. Numbers are carried as integers: the handler only tests a
  number for truthiness.
\<close>

datatype json =
    JNull | JBool bool | JNum int | JStr string | JArr "json list" | JObj "(string \<times> json) list"

text \<open>
  Reading \<^verbatim>\<open>data.type\<close> or \<^verbatim>\<open>data.event\<close>: a TypeError on \<^verbatim>\<open>null\<close>, the own
  property of an object, and \<^verbatim>\<open>undefined\<close> (\<open>None\<close>) otherwise, since no prototype
  defines either name.
\<close>

fun get_property :: "json \<Rightarrow> string \<Rightarrow> js_error + json option" where
  "get_property JNull k = Inl TypeError"
| "get_property (JObj kvs) k = Inr (map_of kvs k)"
| "get_property v k = Inr None"

fun truthy :: "json option \<Rightarrow> bool" where
  "truthy None = False"
| "truthy (Some JNull) = False"
| "truthy (Some (JBool b)) = b"
| "truthy (Some (JNum n)) = (n \<noteq> 0)"
| "truthy (Some (JStr s)) = (s \<noteq> [])"
| "truthy (Some v) = True"

text \<open>The \<^verbatim>\<open>fallbackMessage\<close> of the catch block; \<open>now\<close> is \<^verbatim>\<open>new Date().toISOString()\<close>.\<close>

definition fallbackMessage :: "string \<Rightarrow> string \<Rightarrow> json" where
  "fallbackMessage event_data now =
     JObj [(''type'', JStr ''LOG''), (''level'', JStr ''info''), (''message'', JStr event_data),
           (''agent'', JStr ''SYSTEM''), (''timestamp'', JStr now)]"

text \<open>
  A subscriber receives the value as parsed (the cast to \<^verbatim>\<open>WebSocketMessage\<close> checks
  nothing), acts on its own state and may throw. \<^verbatim>\<open>callbacks.forEach\<close> stops at the
  first exception, keeping what ran before it.
\<close>

type_synonym 's WebSocketCallback = "json \<Rightarrow> 's \<Rightarrow> js_error option \<times> 's"

fun forEach_callbacks :: "'s WebSocketCallback list \<Rightarrow> json \<Rightarrow> 's \<Rightarrow> js_error option \<times> 's" where
  "forEach_callbacks [] m s = (None, s)"
| "forEach_callbacks (callback # cbs) m s =
     (case callback m s of
        (Some e, s') \<Rightarrow> (Some e, s')
      | (None, s') \<Rightarrow> forEach_callbacks cbs m s')"

text \<open>
  The \<^verbatim>\<open>onmessage\<close> handler (websocket.ts 118-145) on a text frame. \<open>JSON_parse\<close> is
  the platform's parser, \<open>None\<close> where it throws a SyntaxError. The \<^verbatim>\<open>try\<close> block
  covers the parse, the reads of \<^verbatim>\<open>data.type\<close> and \<^verbatim>\<open>data.event\<close> and the delivery
  to the subscribers; whatever throws there lands in the \<^verbatim>\<open>catch\<close> block, which
  delivers the fallback and is not guarded itself. The result is the exception that
  leaves the handler (if any), the subscribers' state, and the nested events handed to
  \<^verbatim>\<open>eventHandler.handleEvent\<close> once the dynamic import resolves.
\<close>

definition onmessage ::
  "(string \<Rightarrow> json option) \<Rightarrow> string \<Rightarrow> 's WebSocketCallback list \<Rightarrow> string \<Rightarrow> 's
     \<Rightarrow> js_error option \<times> 's \<times> json list" where
  "onmessage JSON_parse now callbacks event_data s =
     (case JSON_parse event_data of
        None \<Rightarrow>
          (case forEach_callbacks callbacks (fallbackMessage event_data now) s of
             (e, s') \<Rightarrow> (e, s', []))
      | Some data \<Rightarrow>
          (case get_property data ''type'' of
             Inl err \<Rightarrow>
               (case forEach_callbacks callbacks (fallbackMessage event_data now) s of
                  (e, s') \<Rightarrow> (e, s', []))
           | Inr ty \<Rightarrow>
               (let ev = (case get_property data ''event'' of Inl err \<Rightarrow> None | Inr v \<Rightarrow> v);
                    handed = (if ty = Some (JStr ''workflow_event'') \<and> truthy ev
                              then (case ev of None \<Rightarrow> [] | Some e \<Rightarrow> [e]) else [])
                in case forEach_callbacks callbacks data s of
                     (None, s') \<Rightarrow> (None, s', handed)
                   | (Some thrown, s') \<Rightarrow>
                       (case forEach_callbacks callbacks (fallbackMessage event_data now) s' of
                          (e, s'') \<Rightarrow> (e, s'', handed)))))"

text \<open>
  For concrete runs: a subscriber that records what it is given, one that always throws,
  one that records LOG envelopes and throws on anything else, and \<^verbatim>\<open>JSON.parse\<close> on the frame texts used in them: the empty object, \<^verbatim>\<open>null\<close>
  and a number are JSON; the other texts used are not.
\<close>

definition recording_subscriber :: "json list WebSocketCallback" where
  "recording_subscriber m received = (None, received @ [m])"

definition throwing_subscriber :: "'s WebSocketCallback" where
  "throwing_subscriber m u = (Some (Thrown ''subscriber failed''), u)"

definition strict_subscriber :: "json list WebSocketCallback" where
  "strict_subscriber m received =
     (if get_property m ''type'' = Inr (Some (JStr ''LOG'')) then (None, received @ [m])
      else (Some (Thrown ''not a LOG envelope''), received))"

definition sample_JSON_parse :: "string \<Rightarrow> json option" where
  "sample_JSON_parse text =
     (if text = ''{}'' then Some (JObj [])
      else if text = ''null'' then Some JNull
      else if text = ''42'' then Some (JNum 42)
      else None)"


section \<open>Properties of the event router\<close>

lemma handleEvents_history:
  "eventHistory (fst (handleEvents evs eh s)) = eventHistory eh @ evs"
  by (induction evs arbitrary: eh s)
     (auto simp: EventHandler_handleEvent_def Let_def split: prod.splits)

lemma slice_from_neg_suffix:
  "0 < l \<Longrightarrow> slice_from (- l) xs = drop (length xs - nat l) xs"
  by (auto simp: slice_from_def Let_def max_def intro!: arg_cong[where f="\<lambda>k. drop k xs"])

text \<open>
  Claim C9, as stated: there is a fixed bound \<open>N\<close> on the number of entries per event
  type that \<open>getHistory\<close> can return, whatever sequence of events \<open>handleEvent\<close> has
  received. The router never drops an entry, so no such bound exists: \<open>N + 1\<close> events
  of one type are all retained.
\<close>

theorem history_bound_counterexample:
  "\<not> (\<exists>N. \<forall>evs ty.
        length (getHistory (Some ty) None
                  (fst (handleEvents evs (new_EventHandler :: unit EventHandler) ()))) \<le> N)"
proof
  assume "\<exists>N. \<forall>evs ty.
        length (getHistory (Some ty) None
                  (fst (handleEvents evs (new_EventHandler :: unit EventHandler) ()))) \<le> N"
  then obtain N where bound: "\<And>evs ty.
        length (getHistory (Some ty) None
                  (fst (handleEvents evs (new_EventHandler :: unit EventHandler) ()))) \<le> N"
    by blast
  let ?ev = "mk_event ''agent_thinking'' ''p'' ''qa''"
  have "length (getHistory (Some ''agent_thinking'') None
          (fst (handleEvents (replicate (Suc N) ?ev) (new_EventHandler :: unit EventHandler) ())))
        = Suc N"
    unfolding getHistory_def handleEvents_history
    by (simp add: mk_event_def new_EventHandler_def)
  with bound[of "''agent_thinking''" "replicate (Suc N) ?ev"] show False by simp
qed

text \<open>
  Claim C9, amended: the history is append-only and unbounded. After any sequence of
  events \<open>getHistory()\<close> returns the previous history followed by all of them, in
  arrival order, and \<open>getHistory(type)\<close> all entries of that type. The only bound is the
  caller's: with a limit \<open>l > 0\<close>, \<open>getHistory\<close> returns the last \<open>l\<close> matching entries
  (all of them when there are fewer), hence at most \<open>l\<close>.
\<close>

theorem history_unbounded_limit_only_bound:
  assumes "0 < l"
  shows "getHistory None None (fst (handleEvents evs eh s)) = eventHistory eh @ evs
       \<and> getHistory (Some (c # t)) None (fst (handleEvents evs eh s))
           = filter (\<lambda>e. event_type e = c # t) (eventHistory eh @ evs)
       \<and> getHistory ty (Some l) (fst (handleEvents evs eh s))
           = drop (length (getHistory ty None (fst (handleEvents evs eh s))) - nat l)
                  (getHistory ty None (fst (handleEvents evs eh s)))
       \<and> length (getHistory ty (Some l) (fst (handleEvents evs eh s))) \<le> nat l"
  using assms
  by (simp add: getHistory_def handleEvents_history slice_from_neg_suffix Let_def
           split: option.splits)

theorem history_unbounded_limit_only_bound_witness:
  "(0::int) < 2
   \<and> getHistory None None
        (fst (handleEvents [mk_event ''stage_started'' ''p'' ''qa'',
                            mk_event ''agent_thinking'' ''p'' ''qa'',
                            mk_event ''stage_completed'' ''p'' ''qa'']
                (new_EventHandler :: unit EventHandler) ()))
       = [mk_event ''stage_started'' ''p'' ''qa'', mk_event ''agent_thinking'' ''p'' ''qa'',
          mk_event ''stage_completed'' ''p'' ''qa'']
   \<and> getHistory None (Some 2)
        (fst (handleEvents [mk_event ''stage_started'' ''p'' ''qa'',
                            mk_event ''agent_thinking'' ''p'' ''qa'',
                            mk_event ''stage_completed'' ''p'' ''qa'']
                (new_EventHandler :: unit EventHandler) ()))
       = [mk_event ''agent_thinking'' ''p'' ''qa'', mk_event ''stage_completed'' ''p'' ''qa'']"
  using history_unbounded_limit_only_bound
          [of 2 "[mk_event ''stage_started'' ''p'' ''qa'', mk_event ''agent_thinking'' ''p'' ''qa'',
                  mk_event ''stage_completed'' ''p'' ''qa'']"
              "new_EventHandler :: unit EventHandler" "()" "CHR ''x''" "[]" None]
  by (simp add: new_EventHandler_def)

text \<open>
  Claim C10: \<open>getHistory\<close> with \<open>limit = 0\<close> returns the entire filtered history, exactly
  as with no limit: the whole history when no type is given, and every entry of the
  type otherwise.
\<close>

theorem getHistory_limit_zero:
  "getHistory eventType (Some 0) eh = getHistory eventType None eh
   \<and> getHistory None (Some 0) eh = eventHistory eh
   \<and> getHistory (Some (c # t)) (Some 0) eh
       = filter (\<lambda>e. event_type e = c # t) (eventHistory eh)"
  by (simp add: getHistory_def)


section \<open>Properties of the Dashboard file list\<close>

text \<open>
  Claim C1 says that a path announced by FILE\_GENERATED events, however they interleave
  with poll merges, ends up in exactly one entry, holding the last announced content.
  The code does not do that: the push path looks an entry up by \<^verbatim>\<open>filename\<close> while
  the poll path (and the view's list key) use \<^verbatim>\<open>path\<close>. Here a poll restores two
  files with the same file name in different directories, then one FILE\_GENERATED for
  \<^verbatim>\<open>frontend/index.js\<close> arrives: it overwrites the entry of \<^verbatim>\<open>backend/index.js\<close>, and
  the list holds two entries for \<^verbatim>\<open>frontend/index.js\<close>, one of them with the stale
  snapshot content.
\<close>

theorem file_generated_upsert_by_filename_duplicates_path:
  "map (\<lambda>f. (path f, content f))
     (files (foldl (dashboard_step sample_getTime
                      (render_scope (Some ''p1'') (initial_Dashboard None [])))
               (initial_Dashboard None [])
               [Poll (Resolved \<lparr>ps_status = ''running'', current_step = ''developer'',
                                steps_completed = [],
                                generated_files =
                                  Some [mk_file ''index.js'' ''backend/index.js'' ''snapshot B'',
                                        mk_file ''index.js'' ''frontend/index.js'' ''snapshot F'']\<rparr>),
                Push (FILE_GENERATED (mk_file ''index.js'' ''frontend/index.js'' ''live F''))]))
   = [(''frontend/index.js'', ''live F''), (''frontend/index.js'', ''snapshot F'')]"
  by (simp add: dashboard_step_def fetchStatus_def subscribe_callback_def initial_Dashboard_def
        render_scope_def merge_unique_files_def merge_step_def file_generated_updater_def
        mk_file_def Let_def)

lemma merge_step_cases:
  "merge_step prev g = prev \<and> path g \<in> path ` set prev
   \<or> merge_step prev g = prev @ [g] \<and> path g \<notin> path ` set prev"
  by (auto simp: merge_step_def find_None_iff image_iff) metis

lemma merge_unique_files_added:
  "\<exists>added. merge_unique_files server prev = prev @ added
     \<and> set added \<subseteq> set server
     \<and> (\<forall>g\<in>set added. path g \<notin> path ` set prev)
     \<and> distinct (map path added)
     \<and> path ` set server \<subseteq> path ` set (prev @ added)"
proof (induction server arbitrary: prev)
  case Nil
  show ?case by (simp add: merge_unique_files_def)
next
  case (Cons g server)
  from Cons.IH[of "merge_step prev g"] obtain added where
    a: "merge_unique_files server (merge_step prev g) = merge_step prev g @ added"
       "set added \<subseteq> set server"
       "\<forall>h\<in>set added. path h \<notin> path ` set (merge_step prev g)"
       "distinct (map path added)"
       "path ` set server \<subseteq> path ` set (merge_step prev g @ added)"
    by blast
  have unfold: "merge_unique_files (g # server) prev
                = merge_unique_files server (merge_step prev g)"
    by (simp add: merge_unique_files_def)
  from merge_step_cases[of prev g] show ?case
  proof
    assume c: "merge_step prev g = prev \<and> path g \<in> path ` set prev"
    show ?thesis
      apply (rule exI[of _ added])
      using a c unfold by auto
  next
    assume c: "merge_step prev g = prev @ [g] \<and> path g \<notin> path ` set prev"
    show ?thesis
      apply (rule exI[of _ "g # added"])
      using a c unfold by auto
  qed
qed

text \<open>
  Claim C7: a successful poll (for a mounted project) resets \<open>retryCount\<close> to zero and
  sets no retry timer. The merge keeps the existing file list as a prefix, entry by
  entry, so no existing entry changes; what it appends are snapshot entries whose path
  no existing entry has, each new path once; and afterwards every path of the snapshot
  is in the list.
\<close>

theorem fetchStatus_success_merge:
  assumes "scope_projectId sc = Some pid" and "pid \<noteq> []"
  shows "retryCount (fst (fetchStatus sc (Resolved data) st)) = 0
       \<and> snd (fetchStatus sc (Resolved data) st) = None
       \<and> take (length (files st)) (files (fst (fetchStatus sc (Resolved data) st))) = files st
       \<and> (\<forall>g \<in> set (drop (length (files st)) (files (fst (fetchStatus sc (Resolved data) st)))).
             g \<in> (case generated_files data of None \<Rightarrow> {} | Some gf \<Rightarrow> set gf)
             \<and> path g \<notin> path ` set (files st))
       \<and> distinct (map path (drop (length (files st))
                                (files (fst (fetchStatus sc (Resolved data) st)))))
       \<and> (\<forall>g \<in> (case generated_files data of None \<Rightarrow> {} | Some gf \<Rightarrow> set gf).
             path g \<in> path ` set (files (fst (fetchStatus sc (Resolved data) st))))"
proof (cases "generated_files data")
  case None
  with assms show ?thesis by (simp add: fetchStatus_def)
next
  case (Some gf)
  obtain added where
    a: "merge_unique_files gf (files st) = files st @ added"
       "set added \<subseteq> set gf"
       "\<forall>g\<in>set added. path g \<notin> path ` set (files st)"
       "distinct (map path added)"
       "path ` set gf \<subseteq> path ` set (files st @ added)"
    using merge_unique_files_added[of gf "files st"] by blast
  have nil: "gf = [] \<Longrightarrow> added = []" using a(2) by simp
  have f: "files (fst (fetchStatus sc (Resolved data) st)) = files st @ added"
    using assms Some a(1) nil by (cases "gf = []") (simp_all add: fetchStatus_def)
  have r: "retryCount (fst (fetchStatus sc (Resolved data) st)) = 0"
          "snd (fetchStatus sc (Resolved data) st) = None"
    using assms Some by (simp_all add: fetchStatus_def Let_def)
  show ?thesis unfolding f using r a Some by auto
qed

theorem fetchStatus_success_merge_witness:
  "scope_projectId (render_scope (Some ''p1'') (initial_Dashboard None [])) = Some ''p1''
   \<and> ''p1'' \<noteq> []
   \<and> retryCount (fst (fetchStatus (render_scope (Some ''p1'') (initial_Dashboard None []))
        (Resolved \<lparr>ps_status = ''running'', current_step = ''developer'', steps_completed = [],
                   generated_files = Some [mk_file ''a.md'' ''docs/a.md'' ''snapshot A'',
                                           mk_file ''b.md'' ''docs/b.md'' ''snapshot B'']\<rparr>)
        ((initial_Dashboard None [])\<lparr>files := [mk_file ''a.md'' ''docs/a.md'' ''live A''],
                                      retryCount := 3\<rparr>))) = 0
   \<and> files (fst (fetchStatus (render_scope (Some ''p1'') (initial_Dashboard None []))
        (Resolved \<lparr>ps_status = ''running'', current_step = ''developer'', steps_completed = [],
                   generated_files = Some [mk_file ''a.md'' ''docs/a.md'' ''snapshot A'',
                                           mk_file ''b.md'' ''docs/b.md'' ''snapshot B'']\<rparr>)
        ((initial_Dashboard None [])\<lparr>files := [mk_file ''a.md'' ''docs/a.md'' ''live A''],
                                      retryCount := 3\<rparr>)))
     = [mk_file ''a.md'' ''docs/a.md'' ''live A'', mk_file ''b.md'' ''docs/b.md'' ''snapshot B'']"
  using fetchStatus_success_merge
          [of "render_scope (Some ''p1'') (initial_Dashboard None [])" "''p1''"
              "\<lparr>ps_status = ''running'', current_step = ''developer'', steps_completed = [],
                generated_files = Some [mk_file ''a.md'' ''docs/a.md'' ''snapshot A'',
                                        mk_file ''b.md'' ''docs/b.md'' ''snapshot B'']\<rparr>"
              "(initial_Dashboard None [])\<lparr>files := [mk_file ''a.md'' ''docs/a.md'' ''live A''],
                                           retryCount := 3\<rparr>"]
  by (simp add: fetchStatus_def render_scope_def initial_Dashboard_def merge_unique_files_def
        merge_step_def mk_file_def)


section \<open>Properties of the chat transcript\<close>

text \<open>What either chat branch does to the transcript, in terms of the entry it stands for.\<close>

lemma chat_delivery_transcript:
  assumes "chat_entry d = Some e"
  shows "chatMessages (subscribe_callback getTime sc d st)
         = (if list_ex (\<lambda>m. chat_role m = chat_role e \<and> chat_content m = chat_content e \<and>
                          timestamps_within_2000 getTime (chat_timestamp m) (chat_timestamp e))
                 (chatMessages st)
            then chatMessages st else chatMessages st @ [e])"
  using assms by (cases d) (auto simp: subscribe_callback_def Let_def)

text \<open>
  Claim C2: two chat deliveries (CHAT\_MESSAGE or CHAT\_RESPONSE, in either combination)
  with the same role and content and timestamps less than 2000 ms apart leave one entry
  for the message. Whatever the transcript was, the pair adds at most one entry and the
  message is in the transcript afterwards. When the transcript did not hold the message
  before the pair (no entry of that role and content within 2000 ms of either
  delivery), the result is the old transcript followed by the first delivery's entry,
  and exactly one entry of the transcript is of that role and content within 2000 ms of
  either delivery.
\<close>

theorem chat_pair_one_entry:
  assumes da: "chat_entry da = Some ea" and db: "chat_entry db = Some eb"
      and same: "chat_role ea = chat_role eb" "chat_content ea = chat_content eb"
      and ta: "getTime (chat_timestamp ea) = Some ta"
      and tb: "getTime (chat_timestamp eb) = Some tb"
      and close: "\<bar>ta - tb\<bar> < 2000"
  shows "length (chatMessages (subscribe_callback getTime scb db
                                 (subscribe_callback getTime sca da st)))
           \<le> length (chatMessages st) + 1
       \<and> list_ex (\<lambda>m. chat_role m = chat_role ea \<and> chat_content m = chat_content ea \<and>
                     timestamps_within_2000 getTime (chat_timestamp m) (chat_timestamp ea))
            (chatMessages (subscribe_callback getTime scb db
                             (subscribe_callback getTime sca da st)))
       \<and> (\<not> list_ex (\<lambda>m. chat_role m = chat_role ea \<and> chat_content m = chat_content ea \<and>
                     (timestamps_within_2000 getTime (chat_timestamp m) (chat_timestamp ea) \<or>
                      timestamps_within_2000 getTime (chat_timestamp m) (chat_timestamp eb)))
            (chatMessages st)
          \<longrightarrow> chatMessages (subscribe_callback getTime scb db
                               (subscribe_callback getTime sca da st))
                = chatMessages st @ [ea]
            \<and> length (filter (\<lambda>m. chat_role m = chat_role ea \<and> chat_content m = chat_content ea \<and>
                     (timestamps_within_2000 getTime (chat_timestamp m) (chat_timestamp ea) \<or>
                      timestamps_within_2000 getTime (chat_timestamp m) (chat_timestamp eb)))
                 (chatMessages (subscribe_callback getTime scb db
                                  (subscribe_callback getTime sca da st))))
                = 1)"
proof -
  let ?dupa = "\<lambda>m. chat_role m = chat_role ea \<and> chat_content m = chat_content ea \<and>
                     timestamps_within_2000 getTime (chat_timestamp m) (chat_timestamp ea)"
  let ?dupb = "\<lambda>m. chat_role m = chat_role eb \<and> chat_content m = chat_content eb \<and>
                     timestamps_within_2000 getTime (chat_timestamp m) (chat_timestamp eb)"
  let ?dup = "\<lambda>m. chat_role m = chat_role ea \<and> chat_content m = chat_content ea \<and>
                     (timestamps_within_2000 getTime (chat_timestamp m) (chat_timestamp ea) \<or>
                      timestamps_within_2000 getTime (chat_timestamp m) (chat_timestamp eb))"
  let ?mid = "subscribe_callback getTime sca da st"
  let ?fin = "subscribe_callback getTime scb db ?mid"
  have ea_dupb: "?dupb ea"
    using same close by (simp add: timestamps_within_2000_def ta tb)
  have ea_dupa: "?dupa ea"
    by (simp add: timestamps_within_2000_def ta)
  have mid: "chatMessages ?mid
             = (if list_ex ?dupa (chatMessages st) then chatMessages st
                else chatMessages st @ [ea])"
    by (rule chat_delivery_transcript[OF da])
  have fin: "chatMessages ?fin
             = (if list_ex ?dupb (chatMessages ?mid) then chatMessages ?mid
                else chatMessages ?mid @ [eb])"
    by (rule chat_delivery_transcript[OF db])
  have len: "length (chatMessages ?fin) \<le> length (chatMessages st) + 1"
  proof (cases "list_ex ?dupa (chatMessages st)")
    case True
    then have "chatMessages ?mid = chatMessages st" using mid by simp
    then show ?thesis unfolding fin by simp
  next
    case False
    then have m: "chatMessages ?mid = chatMessages st @ [ea]" using mid by simp
    have "list_ex ?dupb (chatMessages ?mid)"
      unfolding m using ea_dupb by (auto simp: list_ex_iff)
    then show ?thesis using fin m by simp
  qed
  have present: "list_ex ?dupa (chatMessages ?fin)"
  proof -
    have "list_ex ?dupa (chatMessages ?mid)"
      unfolding mid using ea_dupa by (auto simp: list_ex_iff)
    then show ?thesis unfolding fin by (auto simp: list_ex_iff)
  qed
  have fresh: "\<not> list_ex ?dup (chatMessages st)
          \<longrightarrow> chatMessages ?fin = chatMessages st @ [ea]
              \<and> length (filter ?dup (chatMessages ?fin)) = 1"
  proof
    assume nodup: "\<not> list_ex ?dup (chatMessages st)"
    then have "\<not> list_ex ?dupa (chatMessages st)" by (auto simp: list_ex_iff)
    then have m: "chatMessages ?mid = chatMessages st @ [ea]" using mid by simp
    have "list_ex ?dupb (chatMessages ?mid)"
      unfolding m using ea_dupb by (auto simp: list_ex_iff)
    then have f: "chatMessages ?fin = chatMessages st @ [ea]"
      using fin m by simp
    have none: "filter ?dup (chatMessages st) = []"
      using nodup by (auto simp: list_ex_iff filter_empty_conv)
    have "length (filter ?dup (chatMessages ?fin)) = 1"
      unfolding f using none ea_dupa by simp
    with f show "chatMessages ?fin = chatMessages st @ [ea]
              \<and> length (filter ?dup (chatMessages ?fin)) = 1" by simp
  qed
  from len present fresh show ?thesis by blast
qed

theorem chat_pair_one_entry_witness:
  "chat_entry (CHAT_MESSAGE ai ''Requirements are ready.'' ''2025-01-01T00:00:00.000Z'')
     = Some \<lparr>chat_role = ai, chat_content = ''Requirements are ready.'',
             chat_timestamp = ''2025-01-01T00:00:00.000Z''\<rparr>
   \<and> chat_entry (CHAT_RESPONSE ''Requirements are ready.'' None None ''2025-01-01T00:00:01.500Z'')
     = Some \<lparr>chat_role = ai, chat_content = ''Requirements are ready.'',
             chat_timestamp = ''2025-01-01T00:00:01.500Z''\<rparr>
   \<and> sample_getTime ''2025-01-01T00:00:00.000Z'' = Some 1735689600000
   \<and> sample_getTime ''2025-01-01T00:00:01.500Z'' = Some 1735689601500
   \<and> \<bar>1735689600000 - 1735689601500\<bar> < (2000::int)
   \<and> chatMessages
        (subscribe_callback sample_getTime (render_scope (Some ''p1'') (initial_Dashboard None []))
           (CHAT_RESPONSE ''Requirements are ready.'' None None ''2025-01-01T00:00:01.500Z'')
           (subscribe_callback sample_getTime
              (render_scope (Some ''p1'') (initial_Dashboard None []))
              (CHAT_MESSAGE ai ''Requirements are ready.'' ''2025-01-01T00:00:00.000Z'')
              (initial_Dashboard None [])))
     = [\<lparr>chat_role = ai, chat_content = ''Requirements are ready.'',
         chat_timestamp = ''2025-01-01T00:00:00.000Z''\<rparr>]"
  using chat_pair_one_entry
          [where da = "CHAT_MESSAGE ai ''Requirements are ready.'' ''2025-01-01T00:00:00.000Z''"
             and ea = "\<lparr>chat_role = ai, chat_content = ''Requirements are ready.'',
                        chat_timestamp = ''2025-01-01T00:00:00.000Z''\<rparr>"
             and db = "CHAT_RESPONSE ''Requirements are ready.'' None None
                         ''2025-01-01T00:00:01.500Z''"
             and eb = "\<lparr>chat_role = ai, chat_content = ''Requirements are ready.'',
                        chat_timestamp = ''2025-01-01T00:00:01.500Z''\<rparr>"
             and getTime = sample_getTime and ta = 1735689600000 and tb = 1735689601500
             and sca = "render_scope (Some ''p1'') (initial_Dashboard None [])"
             and scb = "render_scope (Some ''p1'') (initial_Dashboard None [])"
             and st = "initial_Dashboard None []"]
  by (simp add: sample_getTime_def initial_Dashboard_def)


section \<open>Properties of the review gate\<close>

text \<open>
  For a fixed closure the AWAITING\_REVIEW branch is idempotent: it sets the flag and,
  at most, the pointer to a value the closure fixes.
\<close>

lemma awaiting_review_branch_idempotent:
  "subscribe_callback getTime sc (AWAITING_REVIEW stg prompt fs ts)
      (subscribe_callback getTime sc (AWAITING_REVIEW stg prompt fs ts) st)
     = subscribe_callback getTime sc (AWAITING_REVIEW stg prompt fs ts) st
   \<and> awaitingReview (subscribe_callback getTime sc (AWAITING_REVIEW stg prompt fs ts) st)"
  by (simp add: subscribe_callback_def Let_def)



section \<open>Project guards\<close>

text \<open>
  Claim C8, as stated: every event-consuming callback compares the event's project id
  with the active project, so nothing that belongs to another project changes the
  displayed state. The Dashboard's callback has no such comparison: mounted for project
  \<^verbatim>\<open>B\<close>, it applies a FILE\_GENERATED envelope for a file of project \<^verbatim>\<open>A\<close> to its
  file list. The event router likewise records a workflow event of project \<^verbatim>\<open>A\<close>,
  which changes what \<open>getCurrentStage\<close> reports.
\<close>

theorem project_guard_counterexample:
  "files (initial_Dashboard None []) = []
   \<and> files (subscribe_callback sample_getTime
              (render_scope (Some ''B'') (initial_Dashboard None []))
              (FILE_GENERATED (mk_file ''README.md'' ''workspace/A/README.md'' ''notes of A''))
              (initial_Dashboard None []))
     = [mk_file ''README.md'' ''workspace/A/README.md'' ''notes of A'']
   \<and> project_id (mk_event ''stage_started'' ''A'' ''qa'') \<noteq> ''B''
   \<and> getCurrentStage (new_EventHandler :: unit EventHandler) = None
   \<and> getCurrentStage (fst (EventHandler_handleEvent (mk_event ''stage_started'' ''A'' ''qa'')
                               (new_EventHandler :: unit EventHandler) ())) = Some ''qa''"
  by (simp add: subscribe_callback_def file_generated_updater_def initial_Dashboard_def
        mk_file_def mk_event_def new_EventHandler_def EventHandler_handleEvent_def
        getCurrentStage_def Let_def)

text \<open>
  Claim C8, amended: a workflow event whose project id differs from the project the
  ProgressTimeline is rendered for leaves the stage map unchanged, and the Dashboard's
  callback ignores \<open>workflow_event\<close> envelopes altogether. That is the only guard: the
  Dashboard's callback gives the same result whatever project it is mounted for (its
  other envelopes carry no project id), and the router appends every event to its
  history.
\<close>

theorem project_guard_timeline_only:
  assumes "project_id ev \<noteq> pid"
  shows "ProgressTimeline_handleEvent pid ev stgs = Inr stgs
       \<and> subscribe_callback getTime sc (workflow_event ev) st = st
       \<and> subscribe_callback getTime (sc\<lparr>scope_projectId := other\<rparr>) msg st
           = subscribe_callback getTime sc msg st
       \<and> eventHistory (fst (EventHandler_handleEvent ev eh s)) = eventHistory eh @ [ev]"
  using assms
  by (auto simp: ProgressTimeline_handleEvent_def subscribe_callback_def
        EventHandler_handleEvent_def Let_def split: WebSocketMessage.splits)

theorem project_guard_timeline_only_witness:
  "project_id (mk_event ''stage_started'' ''A'' ''requirements'') \<noteq> ''B''
   \<and> ProgressTimeline_handleEvent ''B'' (mk_event ''stage_started'' ''A'' ''requirements'')
        initial_stages = Inr initial_stages"
  using project_guard_timeline_only
          [where ev = "mk_event ''stage_started'' ''A'' ''requirements''" and pid = "''B''"
             and stgs = initial_stages and getTime = sample_getTime
             and sc = "render_scope (Some ''B'') (initial_Dashboard None [])"
             and st = "initial_Dashboard None []" and other = None
             and msg = "CONNECTION_STATUS True ''2025-01-01T00:00:00.000Z''"
             and eh = "new_EventHandler :: unit EventHandler" and s = "()"]
  by (simp add: mk_event_def)


section \<open>Properties of the per-stage state\<close>

lemma handleEvent_keeps_non_pending:
  assumes "ProgressTimeline_handleEvent pid ev st = Inr st'"
      and "st n = Some si" and "status si \<noteq> pending"
  shows "\<exists>si'. st' n = Some si' \<and> status si' \<noteq> pending"
proof (cases "project_id ev \<noteq> pid \<or> stage ev = None \<or> stage ev = Some []")
  case True
  with assms show ?thesis
    by (auto simp: ProgressTimeline_handleEvent_def split: if_splits)
next
  case False
  then obtain s where s: "stage ev = Some s" "s \<noteq> []" "project_id ev = pid" by auto
  show ?thesis
  proof (cases "st s")
    case None
    with assms s show ?thesis
      by (auto simp: ProgressTimeline_handleEvent_def split: if_splits)
  next
    case (Some info)
    show ?thesis
    proof (cases "s = n")
      case True
      with assms s Some show ?thesis
        by (auto simp: ProgressTimeline_handleEvent_def Let_def split: if_splits)
    next
      case False
      with assms s Some show ?thesis
        by (auto simp: ProgressTimeline_handleEvent_def Let_def split: if_splits)
    qed
  qed
qed

lemma toggle_keeps_non_pending:
  assumes "toggleStageExpansion m st = Inr st'"
      and "st n = Some si" and "status si \<noteq> pending"
  shows "\<exists>si'. st' n = Some si' \<and> status si' \<noteq> pending"
  using assms by (cases "m = n") (auto simp: toggleStageExpansion_def split: option.splits)

lemma timeline_step_keeps_non_pending:
  assumes "timeline_step pid a st = Inr st'"
      and "st n = Some si" and "status si \<noteq> pending"
  shows "\<exists>si'. st' n = Some si' \<and> status si' \<noteq> pending"
  using assms handleEvent_keeps_non_pending toggle_keeps_non_pending
  by (cases a) (auto simp: timeline_step_def)

text \<open>
  Claim C4: over any sequence of workflow events (and expansion toggles, the only other
  writer of the cell), a stage that has left \<open>pending\<close> (so in particular one that is
  completed or failed) is still a stage and is not \<open>pending\<close> afterwards: the handlers
  assign \<open>running\<close>, \<open>completed\<close> or \<open>failed\<close> only.
\<close>

theorem stage_never_reverts_to_pending:
  assumes "timeline_run pid acts st = Inr st'"
      and "st n = Some si" and "status si \<noteq> pending"
  shows "\<exists>si'. st' n = Some si' \<and> status si' \<noteq> pending"
  using assms
proof (induction acts arbitrary: st si)
  case Nil
  then show ?case by simp
next
  case (Cons a acts)
  from Cons.prems(1) obtain mid where
    mid: "timeline_step pid a st = Inr mid" "timeline_run pid acts mid = Inr st'"
    by (auto split: sum.splits)
  from timeline_step_keeps_non_pending[OF mid(1) Cons.prems(2,3)]
  obtain sm where "mid n = Some sm" "status sm \<noteq> pending" by blast
  with Cons.IH[OF mid(2)] show ?case by blast
qed

theorem stage_never_reverts_to_pending_witness:
  "\<exists>st'. timeline_run ''p1''
            [Event (mk_event ''stage_started'' ''p1'' ''requirements''),
             Event (mk_event ''agent_thinking'' ''p1'' ''requirements''),
             Toggle ''requirements'']
            (initial_stages(''requirements'' \<mapsto>
               \<lparr>name = ''requirements'', status = completed, stage_agent = None,
                startTime = None, endTime = Some ''2025-01-01T00:00:00.000Z'',
                stage_message = None, events = [], expanded = False\<rparr>))
          = Inr st'
        \<and> (\<exists>si'. st' ''requirements'' = Some si' \<and> status si' \<noteq> pending)"
proof -
  let ?st = "initial_stages(''requirements'' \<mapsto>
               \<lparr>name = ''requirements'', status = completed, stage_agent = None,
                startTime = None, endTime = Some ''2025-01-01T00:00:00.000Z'',
                stage_message = None, events = [], expanded = False\<rparr>)"
  let ?acts = "[Event (mk_event ''stage_started'' ''p1'' ''requirements''),
                Event (mk_event ''agent_thinking'' ''p1'' ''requirements''),
                Toggle ''requirements'']"
  obtain st' where run: "timeline_run ''p1'' ?acts ?st = Inr st'"
    by (simp add: timeline_step_def ProgressTimeline_handleEvent_def toggleStageExpansion_def
          mk_event_def Let_def)
  have lookup: "?st ''requirements''
                = Some \<lparr>name = ''requirements'', status = completed, stage_agent = None,
                        startTime = None, endTime = Some ''2025-01-01T00:00:00.000Z'',
                        stage_message = None, events = [], expanded = False\<rparr>"
    by simp
  have "\<exists>si'. st' ''requirements'' = Some si' \<and> status si' \<noteq> pending"
    by (rule stage_never_reverts_to_pending[OF run lookup]) simp
  with run show ?thesis by blast
qed


section \<open>Properties of the transport layer\<close>

lemma failing_reconnects_from:
  assumes "ws s = Some u" and "projectId s = Some pid" and "pid \<noteq> []"
      and "pending_timers s = []"
      and "reconnectAttempts s \<le> maxReconnectAttempts"
      and "maxReconnectAttempts - reconnectAttempts s < fuel"
  shows "failing_reconnects fuel s
         = Some (replicate (maxReconnectAttempts - reconnectAttempts s) reconnectInterval)"
  using assms
proof (induction fuel arbitrary: s u)
  case 0
  then show ?case by simp
next
  case (Suc fuel)
  show ?case
  proof (cases "reconnectAttempts s < maxReconnectAttempts")
    case False
    with Suc.prems show ?thesis
      by (simp add: onclose_def onerror_def priv_reconnect_def priv_notifyConnectionStatus_def)
  next
    case True
    let ?s2 = "fire_timer (onclose (onerror s))"
    have s2: "ws ?s2 = Some pid" "projectId ?s2 = Some pid" "pending_timers ?s2 = []"
             "reconnectAttempts ?s2 = Suc (reconnectAttempts s)"
      using True Suc.prems
      by (simp_all add: onclose_def onerror_def priv_reconnect_def
            priv_notifyConnectionStatus_def fire_timer_def priv_connect_def)
    have pend: "pending_timers (onclose (onerror s)) = [reconnectInterval]"
      using True Suc.prems
      by (simp add: onclose_def onerror_def priv_reconnect_def priv_notifyConnectionStatus_def)
    have ih: "failing_reconnects fuel ?s2
              = Some (replicate (maxReconnectAttempts - reconnectAttempts ?s2) reconnectInterval)"
      using Suc.IH[OF s2(1) s2(2) Suc.prems(3) s2(3)] True Suc.prems(6) s2(4) by simp
    have "maxReconnectAttempts - reconnectAttempts s
          = Suc (maxReconnectAttempts - reconnectAttempts ?s2)"
      using True s2(4) by simp
    then show ?thesis
      using Suc.prems(1) pend ih by (simp add: Let_def)
  qed
qed

text \<open>
  Claim C3: when every connection fails, \<open>connect\<close> is followed by exactly 10 automatic
  reconnect attempts, each scheduled 3000 ms after the failure before it, and after the
  tenth has failed nothing more is scheduled (the run ends for any fuel above 10; the
  connection \<open>connect\<close> itself opens is not one of the ten). A successful open sets the
  counter to zero, so a connection that was open and then drops gets ten attempts again.
  Once the counter is at the maximum a close schedules nothing.
\<close>

theorem reconnect_bound:
  assumes "pid \<noteq> []" and "pending_timers s0 = []" and "10 < fuel"
  shows "failing_reconnects fuel (connect pid s0) = Some (replicate 10 3000)
       \<and> reconnectAttempts (onopen s) = 0
       \<and> (ws s = Some pid \<and> projectId s = Some pid \<and> pending_timers s = []
            \<longrightarrow> failing_reconnects fuel (onopen s) = Some (replicate 10 3000))
       \<and> (maxReconnectAttempts \<le> reconnectAttempts s
            \<longrightarrow> pending_timers (onclose s) = pending_timers s)"
proof -
  have a: "failing_reconnects fuel (connect pid s0) = Some (replicate 10 3000)"
    using failing_reconnects_from[of "connect pid s0" pid pid fuel] assms
    by (simp add: connect_def priv_connect_def maxReconnectAttempts_def reconnectInterval_def)
  have b: "reconnectAttempts (onopen s) = 0"
    by (simp add: onopen_def priv_notifyConnectionStatus_def)
  have c: "ws s = Some pid \<and> projectId s = Some pid \<and> pending_timers s = []
            \<longrightarrow> failing_reconnects fuel (onopen s) = Some (replicate 10 3000)"
    using failing_reconnects_from[of "onopen s" pid pid fuel] assms
    by (simp add: onopen_def priv_notifyConnectionStatus_def maxReconnectAttempts_def
          reconnectInterval_def)
  have d: "maxReconnectAttempts \<le> reconnectAttempts s
            \<longrightarrow> pending_timers (onclose s) = pending_timers s"
    by (simp add: onclose_def priv_reconnect_def priv_notifyConnectionStatus_def)
  from a b c d show ?thesis by blast
qed

theorem reconnect_bound_witness:
  "''p1'' \<noteq> [] \<and> pending_timers new_WebSocketService = [] \<and> (10::nat) < 11
   \<and> failing_reconnects 11 (connect ''p1'' new_WebSocketService) = Some (replicate 10 3000)
   \<and> failing_reconnects 11
        (onopen (fire_timer (onclose (connect ''p1'' new_WebSocketService))))
     = Some (replicate 10 3000)"
  using reconnect_bound
          [of "''p1''" new_WebSocketService 11
              "fire_timer (onclose (connect ''p1'' new_WebSocketService))"]
  by (simp add: new_WebSocketService_def connect_def priv_connect_def onclose_def
        priv_reconnect_def priv_notifyConnectionStatus_def fire_timer_def
        maxReconnectAttempts_def)

lemma forEach_no_throw_on:
  "(\<forall>cb\<in>set cbs. \<forall>s'. fst (cb m s') = None)
     \<Longrightarrow> forEach_callbacks cbs m s = (None, fold (\<lambda>cb s'. snd (cb m s')) cbs s)"
proof (induction cbs arbitrary: s)
  case Nil
  show ?case by simp
next
  case (Cons cb cbs)
  have "fst (cb m s) = None" using Cons.prems by simp
  then obtain s1 where c: "cb m s = (None, s1)" by (cases "cb m s") simp
  have "forEach_callbacks cbs m s1 = (None, fold (\<lambda>cb s'. snd (cb m s')) cbs s1)"
    using Cons by simp
  then show ?case using c by simp
qed

lemma forEach_stops_at_throw:
  "forEach_callbacks pre m s = (None, s1) \<Longrightarrow> cb m s1 = (Some e, s2)
     \<Longrightarrow> forEach_callbacks (pre @ cb # post) m s = (Some e, s2)"
proof (induction pre arbitrary: s)
  case Nil
  then show ?case by simp
next
  case (Cons c pre)
  obtain r t where ct: "c m s = (r, t)" by (cases "c m s")
  with Cons.prems(1) have r: "r = None" by (cases r) auto
  with ct Cons.prems(1) have "forEach_callbacks pre m t = (None, s1)" by simp
  from Cons.IH[OF this Cons.prems(2)] show ?case using ct r by simp
qed

text \<open>
  Claim C5, as stated: every frame that is not one of the recognized envelopes reaches
  the subscribers as a synthetic LOG envelope, no exception leaves the handler, and no
  frame is dropped. The handler validates nothing beyond \<^verbatim>\<open>JSON.parse\<close>: the frame
  \<^verbatim>\<open>{}\<close> is JSON but no envelope, and the subscriber receives the empty object itself,
  not a LOG envelope. And the delivery inside the catch block is unguarded: with a
  subscriber that throws on the fallback, subscribed before one that records, a frame
  that is no JSON ends in an exception leaving the handler, and the recording
  subscriber receives nothing.
\<close>

theorem malformed_frame_counterexample:
  "onmessage sample_JSON_parse ''2025-01-01T00:00:00.000Z'' [recording_subscriber] ''{}'' []
     = (None, [JObj []], [])
   \<and> JObj [] \<noteq> fallbackMessage ''{}'' ''2025-01-01T00:00:00.000Z''
   \<and> onmessage sample_JSON_parse ''2025-01-01T00:00:00.000Z''
        [throwing_subscriber, recording_subscriber] ''not json'' []
     = (Some (Thrown ''subscriber failed''), [], [])"
  by (simp add: onmessage_def sample_JSON_parse_def recording_subscriber_def
        throwing_subscriber_def fallbackMessage_def)

text \<open>
  Claim C5, amended, in four parts.
  \<^enum> A frame that \<^verbatim>\<open>JSON.parse\<close> rejects, or that is the literal \<^verbatim>\<open>null\<close>, is handed
    to the subscribers as the LOG envelope with level \<^verbatim>\<open>info\<close>, agent \<^verbatim>\<open>SYSTEM\<close> and
    the raw text as message (and nothing goes to the event router).
  \<^enum> A frame that is JSON other than \<^verbatim>\<open>null\<close> is handed to the subscribers as parsed,
    whatever it is; if no subscriber throws on it that is all, and if one does, the
    subscribers are handed the LOG envelope afterwards.
  \<^enum> Handing a value to the subscribers runs them in subscription order and stops at
    the first that throws on it: if none throws, every subscriber receives it;
    otherwise the result is the exception and the state the throwing subscriber left,
    and the subscribers after it do not run.
  \<^enum> An exception leaves the handler only when a subscriber throws on the LOG
    envelope: if none does, none leaves, for any frame.
\<close>

theorem onmessage_delivery:
  "(JSON_parse raw = None \<or> JSON_parse raw = Some JNull \<longrightarrow>
      onmessage JSON_parse now cbs raw s
        = (fst (forEach_callbacks cbs (fallbackMessage raw now) s),
           snd (forEach_callbacks cbs (fallbackMessage raw now) s), []))
   \<and> fallbackMessage raw now
        = JObj [(''type'', JStr ''LOG''), (''level'', JStr ''info''), (''message'', JStr raw),
                (''agent'', JStr ''SYSTEM''), (''timestamp'', JStr now)]
   \<and> (\<forall>data. JSON_parse raw = Some data \<and> data \<noteq> JNull \<longrightarrow>
         (if fst (forEach_callbacks cbs data s) = None
          then fst (onmessage JSON_parse now cbs raw s) = None
               \<and> fst (snd (onmessage JSON_parse now cbs raw s))
                   = snd (forEach_callbacks cbs data s)
          else fst (onmessage JSON_parse now cbs raw s)
                   = fst (forEach_callbacks cbs (fallbackMessage raw now)
                            (snd (forEach_callbacks cbs data s)))
               \<and> fst (snd (onmessage JSON_parse now cbs raw s))
                   = snd (forEach_callbacks cbs (fallbackMessage raw now)
                            (snd (forEach_callbacks cbs data s)))))
   \<and> ((\<forall>cb\<in>set cbs. \<forall>s'. fst (cb m s') = None) \<longrightarrow>
         forEach_callbacks cbs m s = (None, fold (\<lambda>cb s'. snd (cb m s')) cbs s))
   \<and> (\<forall>pre cb post s1 s2 e.
         cbs = pre @ cb # post \<and> forEach_callbacks pre m s = (None, s1)
           \<and> cb m s1 = (Some e, s2) \<longrightarrow>
         forEach_callbacks cbs m s = (Some e, s2))
   \<and> ((\<forall>cb\<in>set cbs. \<forall>s'. fst (cb (fallbackMessage raw now) s') = None) \<longrightarrow>
         fst (onmessage JSON_parse now cbs raw s) = None)"
proof -
  let ?fb = "fallbackMessage raw now"
  have a: "JSON_parse raw = None \<or> JSON_parse raw = Some JNull \<longrightarrow>
      onmessage JSON_parse now cbs raw s
        = (fst (forEach_callbacks cbs ?fb s), snd (forEach_callbacks cbs ?fb s), [])"
    by (auto simp: onmessage_def split: prod.splits)
  have b: "\<forall>data. JSON_parse raw = Some data \<and> data \<noteq> JNull \<longrightarrow>
         (if fst (forEach_callbacks cbs data s) = None
          then fst (onmessage JSON_parse now cbs raw s) = None
               \<and> fst (snd (onmessage JSON_parse now cbs raw s))
                   = snd (forEach_callbacks cbs data s)
          else fst (onmessage JSON_parse now cbs raw s)
                   = fst (forEach_callbacks cbs ?fb (snd (forEach_callbacks cbs data s)))
               \<and> fst (snd (onmessage JSON_parse now cbs raw s))
                   = snd (forEach_callbacks cbs ?fb (snd (forEach_callbacks cbs data s))))"
  proof (intro allI impI)
    fix data assume h: "JSON_parse raw = Some data \<and> data \<noteq> JNull"
    then obtain ty where ty: "get_property data ''type'' = Inr ty"
      by (cases data) auto
    obtain r t where d: "forEach_callbacks cbs data s = (r, t)"
      by (cases "forEach_callbacks cbs data s")
    obtain r' t' where f: "forEach_callbacks cbs ?fb t = (r', t')"
      by (cases "forEach_callbacks cbs ?fb t")
    show "if fst (forEach_callbacks cbs data s) = None
          then fst (onmessage JSON_parse now cbs raw s) = None
               \<and> fst (snd (onmessage JSON_parse now cbs raw s))
                   = snd (forEach_callbacks cbs data s)
          else fst (onmessage JSON_parse now cbs raw s)
                   = fst (forEach_callbacks cbs ?fb (snd (forEach_callbacks cbs data s)))
               \<and> fst (snd (onmessage JSON_parse now cbs raw s))
                   = snd (forEach_callbacks cbs ?fb (snd (forEach_callbacks cbs data s)))"
      using h ty d f by (cases r) (simp_all add: onmessage_def Let_def)
  qed
  have c: "(\<forall>cb\<in>set cbs. \<forall>s'. fst (cb (fallbackMessage raw now) s') = None) \<longrightarrow>
         fst (onmessage JSON_parse now cbs raw s) = None"
  proof
    assume nt: "\<forall>cb\<in>set cbs. \<forall>s'. fst (cb ?fb s') = None"
    have nofb: "\<And>t. fst (forEach_callbacks cbs ?fb t) = None"
      using forEach_no_throw_on[OF nt] by simp
    show "fst (onmessage JSON_parse now cbs raw s) = None"
    proof (cases "JSON_parse raw = None \<or> JSON_parse raw = Some JNull")
      case True
      with a nofb show ?thesis by simp
    next
      case False
      then obtain data where "JSON_parse raw = Some data \<and> data \<noteq> JNull" by auto
      with b nofb show ?thesis by (auto split: if_splits)
    qed
  qed
  have d: "(\<forall>cb\<in>set cbs. \<forall>s'. fst (cb m s') = None) \<longrightarrow>
         forEach_callbacks cbs m s = (None, fold (\<lambda>cb s'. snd (cb m s')) cbs s)"
    by (rule impI) (rule forEach_no_throw_on)
  have e: "\<forall>pre cb post s1 s2 e.
         cbs = pre @ cb # post \<and> forEach_callbacks pre m s = (None, s1)
           \<and> cb m s1 = (Some e, s2) \<longrightarrow>
         forEach_callbacks cbs m s = (Some e, s2)"
  proof (intro allI impI)
    fix pre cb post s1 s2 e
    assume h: "cbs = pre @ cb # post \<and> forEach_callbacks pre m s = (None, s1)
                 \<and> cb m s1 = (Some e, s2)"
    then show "forEach_callbacks cbs m s = (Some e, s2)"
      using forEach_stops_at_throw[of pre m s s1 cb e s2 post] by simp
  qed
  from a b c d e show ?thesis by (simp add: fallbackMessage_def)
qed

theorem onmessage_delivery_witness:
  "sample_JSON_parse ''not json'' = None
   \<and> onmessage sample_JSON_parse ''2025-01-01T00:00:00.000Z''
        [recording_subscriber, recording_subscriber] ''not json'' []
     = (None,
        [JObj [(''type'', JStr ''LOG''), (''level'', JStr ''info''),
               (''message'', JStr ''not json''), (''agent'', JStr ''SYSTEM''),
               (''timestamp'', JStr ''2025-01-01T00:00:00.000Z'')],
         JObj [(''type'', JStr ''LOG''), (''level'', JStr ''info''),
               (''message'', JStr ''not json''), (''agent'', JStr ''SYSTEM''),
               (''timestamp'', JStr ''2025-01-01T00:00:00.000Z'')]],
        [])
   \<and> sample_JSON_parse ''42'' = Some (JNum 42)
   \<and> forEach_callbacks [recording_subscriber, strict_subscriber, recording_subscriber]
        (JNum 42) []
     = (Some (Thrown ''not a LOG envelope''), [JNum 42])
   \<and> fst (onmessage sample_JSON_parse ''2025-01-01T00:00:00.000Z''
             [recording_subscriber, strict_subscriber, recording_subscriber] ''42'' [])
     = None
   \<and> fst (snd (onmessage sample_JSON_parse ''2025-01-01T00:00:00.000Z''
                  [recording_subscriber, strict_subscriber, recording_subscriber] ''42'' []))
     = [JNum 42,
        JObj [(''type'', JStr ''LOG''), (''level'', JStr ''info''),
              (''message'', JStr ''42''), (''agent'', JStr ''SYSTEM''),
              (''timestamp'', JStr ''2025-01-01T00:00:00.000Z'')],
        JObj [(''type'', JStr ''LOG''), (''level'', JStr ''info''),
              (''message'', JStr ''42''), (''agent'', JStr ''SYSTEM''),
              (''timestamp'', JStr ''2025-01-01T00:00:00.000Z'')],
        JObj [(''type'', JStr ''LOG''), (''level'', JStr ''info''),
              (''message'', JStr ''42''), (''agent'', JStr ''SYSTEM''),
              (''timestamp'', JStr ''2025-01-01T00:00:00.000Z'')]]"
  using onmessage_delivery
          [of sample_JSON_parse "''not json''" "''2025-01-01T00:00:00.000Z''"
              "[recording_subscriber, recording_subscriber]" "[]"
              "fallbackMessage ''not json'' ''2025-01-01T00:00:00.000Z''"]
        onmessage_delivery
          [of sample_JSON_parse "''42''" "''2025-01-01T00:00:00.000Z''"
              "[recording_subscriber, strict_subscriber, recording_subscriber]" "[]"
              "JNum 42"]
  by (simp add: sample_JSON_parse_def recording_subscriber_def strict_subscriber_def
        fallbackMessage_def)

end
